theory Spec2Isabelle
  imports Main
begin

section \<open>Package command: running a child process with channel-mediated I/O\<close>

text \<open>
  The embedding follows \<^verbatim>\<open>command/command.go\<close>. \<^verbatim>\<open>Command.Start\<close> builds an
  \<^verbatim>\<open>exec.Cmd\<close>, acquires pipes, starts the child and spawns up to three goroutines.
  Each goroutine is sequential code; it is modelled as a function from the state it
  touches to an outcome and the new state. What the goroutine's environment does (what
  the child prints, what the caller pushes into the stdin channel, how many lines the
  caller takes from a sink, how the operating system answers a call) is a parameter of
  the model, given as data.
\<close>

subsection \<open>Values\<close>

text \<open>A Go \<^verbatim>\<open>error\<close> value, identified by its message.\<close>

datatype error = Err string

text \<open>Channels of strings are identified by a number; \<^verbatim>\<open>nil\<close> is \<open>None\<close>.\<close>

type_synonym chan = nat

text \<open>\<^verbatim>\<open>os.Stdout\<close> and \<^verbatim>\<open>os.Stderr\<close> of the parent process.\<close>

datatype osfile = OsStdout | OsStderr

text \<open>The three standard streams of the child.\<close>

datatype stream = ChildStdin | ChildStdout | ChildStderr

text \<open>
  The values a goroutine of \<^verbatim>\<open>Start\<close> can panic with. An unrecovered panic in a
  goroutine ends the whole program.
\<close>

datatype panic =
    CannotWriteStdin error      \<comment> \<open>\<^verbatim>\<open>panic(fmt.Errorf("cannot write stdin: %s", err))\<close>\<close>
  | ShortWrite nat nat          \<comment> \<open>\<^verbatim>\<open>panic(fmt.Errorf("wrote %d bytes, want %d", c, len(data)))\<close>\<close>
  | CloseStdinFailed error      \<comment> \<open>\<^verbatim>\<open>panic(err)\<close> after \<^verbatim>\<open>stdin.Close()\<close>\<close>
  | SendOnClosedChannel         \<comment> \<open>runtime panic of \<^verbatim>\<open>ch <- line\<close>\<close>
  | CloseOfClosedChannel        \<comment> \<open>runtime panic of \<^verbatim>\<open>close(ch)\<close>\<close>

text \<open>
  How a goroutine (or one blocking operation of it) ends: it returns, it panics, or it
  stays blocked on a channel operation for ever.
\<close>

datatype outcome = Done | Panicked panic | Blocked

subsection \<open>The write end of the child's standard input\<close>

text \<open>
  \<^verbatim>\<open>stdin.Write(data)\<close> returns a count and an error. The answers of the upcoming
  calls are scripted: \<open>WriteAll\<close> transfers the whole argument and reports no error,
  \<open>WriteSome n e\<close> transfers the first \<open>n\<close> bytes and reports \<open>e\<close>. Once the script
  is used up, writes succeed in full.
\<close>

datatype wscript = WriteAll | WriteSome nat "error option"

record pipe =
  content :: string               \<comment> \<open>the bytes that reached the child, in order\<close>
  calls :: "string list"          \<comment> \<open>the argument of every \<^verbatim>\<open>Write\<close> call so far\<close>
  script :: "wscript list"        \<comment> \<open>answers of the upcoming \<^verbatim>\<open>Write\<close> calls\<close>
  close_res :: "error option"     \<comment> \<open>answer of \<^verbatim>\<open>Close\<close>\<close>
  closes :: nat                   \<comment> \<open>number of \<^verbatim>\<open>Close\<close> calls so far\<close>

definition pipe_Write :: "pipe \<Rightarrow> string \<Rightarrow> (nat \<times> error option) \<times> pipe" where
  "pipe_Write p data =
     (case script p of
        [] \<Rightarrow> ((length data, None),
               p\<lparr>content := content p @ data, calls := calls p @ [data]\<rparr>)
      | WriteAll # rest \<Rightarrow>
          ((length data, None),
           p\<lparr>content := content p @ data, calls := calls p @ [data], script := rest\<rparr>)
      | WriteSome n e # rest \<Rightarrow>
          ((min n (length data), e),
           p\<lparr>content := content p @ take n data, calls := calls p @ [data],
             script := rest\<rparr>))"

definition pipe_Close :: "pipe \<Rightarrow> error option \<times> pipe" where
  "pipe_Close p = (close_res p, p\<lparr>closes := Suc (closes p)\<rparr>)"

subsection \<open>The stdin relay goroutine\<close>

text \<open>
  What the caller does with the channel it passed as \<^verbatim>\<open>Stdin\<close>: the lines it sends,
  and whether it closes the channel afterwards.
\<close>

record source =
  sent :: "string list"
  shut :: bool

text \<open>
  The body of \<^verbatim>\<open>for line := range c.Stdin\<close>, lines 49 to 58: one \<^verbatim>\<open>Write\<close> per line
  with \<^verbatim>\<open>[]byte(line)\<close>, a panic on an error and a panic on a count other than
  \<^verbatim>\<open>len(data)\<close>.
\<close>

fun stdin_loop :: "string list \<Rightarrow> pipe \<Rightarrow> panic option \<times> pipe" where
  "stdin_loop [] p = (None, p)"
| "stdin_loop (line # rest) p =
     (let data = line in
      case pipe_Write p data of
        ((c, Some e), p') \<Rightarrow> (Some (CannotWriteStdin e), p')
      | ((c, None), p') \<Rightarrow>
          if c \<noteq> length data then (Some (ShortWrite c (length data)), p')
          else stdin_loop rest p')"

text \<open>
  The goroutine of lines 48 to 64. The \<^verbatim>\<open>range\<close> loop ends only when the channel is
  closed; on a channel that is never closed the goroutine blocks in the receive once the
  sent lines are used up. After the loop, \<^verbatim>\<open>stdin.Close()\<close>, with a panic on an error.
\<close>

definition stdin_relay :: "source \<Rightarrow> pipe \<Rightarrow> outcome \<times> pipe" where
  "stdin_relay src p =
     (case stdin_loop (sent src) p of
        (Some pn, p') \<Rightarrow> (Panicked pn, p')
      | (None, p') \<Rightarrow>
          if shut src then
            (case pipe_Close p' of
               (Some e, p'') \<Rightarrow> (Panicked (CloseStdinFailed e), p'')
             | (None, p'') \<Rightarrow> (Done, p''))
          else (Blocked, p'))"

subsection \<open>Sinks, the parent's output files, and what is observed\<close>

datatype event =
    Send chan string      \<comment> \<open>a line handed over to the receiver of a channel\<close>
  | Close chan            \<comment> \<open>\<^verbatim>\<open>close(ch)\<close>\<close>
  | Print osfile string     \<comment> \<open>bytes written to a file of the parent\<close>

record world =
  is_closed :: "chan \<Rightarrow> bool"   \<comment> \<open>which channels are closed\<close>
  takes :: "chan \<Rightarrow> nat"        \<comment> \<open>how many more lines the caller will take from a channel\<close>
  trace :: "event list"          \<comment> \<open>everything delivered so far, oldest first\<close>
  stdin_pipe :: pipe             \<comment> \<open>the write end of the child's standard input\<close>

text \<open>
  \<^verbatim>\<open>ch <- line\<close>: a panic on a closed channel; otherwise the send completes when the
  receiver takes the line, and blocks for ever when the receiver takes no more.
\<close>

definition send :: "chan \<Rightarrow> string \<Rightarrow> world \<Rightarrow> outcome \<times> world" where
  "send c line w =
     (if is_closed w c then (Panicked SendOnClosedChannel, w)
      else if takes w c = 0 then (Blocked, w)
      else (Done, w\<lparr>takes := (takes w)(c := takes w c - 1),
                     trace := trace w @ [Send c line]\<rparr>))"

text \<open>\<^verbatim>\<open>close(ch)\<close>: a panic on a channel that is closed already.\<close>

definition close_chan :: "chan \<Rightarrow> world \<Rightarrow> outcome \<times> world" where
  "close_chan c w =
     (if is_closed w c then (Panicked CloseOfClosedChannel, w)
      else (Done, w\<lparr>is_closed := (is_closed w)(c := True), trace := trace w @ [Close c]\<rparr>))"

text \<open>\<^verbatim>\<open>fmt.Fprintln(f, line)\<close>: the line and a newline; the result is discarded.\<close>

definition Fprintln :: "osfile \<Rightarrow> string \<Rightarrow> world \<Rightarrow> world" where
  "Fprintln f line w = w\<lparr>trace := trace w @ [Print f (line @ [CHR 0x0A])]\<rparr>"


fun written :: "osfile \<Rightarrow> event list \<Rightarrow> string" where
  "written f [] = []"
| "written f (Print f' s # es) = (if f' = f then s @ written f es else written f es)"
| "written f (e # es) = written f es"


subsection \<open>The output relay goroutines\<close>

text \<open>
  A \<^verbatim>\<open>bufio.Scanner\<close> over a pipe of the child: the tokens that the successive calls of
  \<^verbatim>\<open>Scan\<close> make available through \<^verbatim>\<open>Text\<close> before \<^verbatim>\<open>Scan\<close> returns false, and the
  value of \<^verbatim>\<open>Err\<close> from then on (\<open>None\<close> when the stream ended at end-of-file).
\<close>

record scanner =
  tokens :: "string list"
  scan_err :: "error option"






text \<open>The loop \<^verbatim>\<open>for s.Scan() { line := s.Text(); ... }\<close> of lines 85 to 93.\<close>

fun read_loop :: "string list \<Rightarrow> chan option \<Rightarrow> osfile \<Rightarrow> world \<Rightarrow> outcome \<times> world" where
  "read_loop [] ch f w = (Done, w)"
| "read_loop (line # rest) ch f w =
     (case ch of
        Some c \<Rightarrow>
          (case send c line w of
             (Done, w') \<Rightarrow> read_loop rest ch f w'
           | (r, w') \<Rightarrow> (r, w'))
      | None \<Rightarrow> read_loop rest ch f (Fprintln f line w))"

text \<open>
  The function \<^verbatim>\<open>read\<close> of lines 81 to 94. \<^verbatim>\<open>defer close(ch)\<close> is registered when
  \<^verbatim>\<open>ch\<close> is not nil; it runs when the loop returns and when the loop panics (a panic of
  the deferred call replaces the first one), and does not run while the goroutine is
  blocked. \<^verbatim>\<open>s.Err()\<close> is never consulted.
\<close>

definition read :: "scanner \<Rightarrow> chan option \<Rightarrow> osfile \<Rightarrow> world \<Rightarrow> outcome \<times> world" where
  "read s ch f w =
     (case read_loop (tokens s) ch f w of
        (Blocked, w') \<Rightarrow> (Blocked, w')
      | (r, w') \<Rightarrow>
          (case ch of
             None \<Rightarrow> (r, w')
           | Some c \<Rightarrow>
               (case close_chan c w' of
                  (Panicked pn, w'') \<Rightarrow> (Panicked pn, w'')
                | (_, w'') \<Rightarrow> (r, w''))))"

subsection \<open>The process specification and the launch\<close>

text \<open>
  The struct \<^verbatim>\<open>Command\<close>. A slice field that is \<^verbatim>\<open>nil\<close> and one that is empty but not
  \<^verbatim>\<open>nil\<close> both have length zero; \<^verbatim>\<open>Env\<close> keeps the difference (\<open>None\<close> is
  \<^verbatim>\<open>nil\<close>), because \<^verbatim>\<open>exec.Cmd\<close> does.
\<close>

record Command =
  Name :: string
  Args :: "string list"
  Env :: "string list option"
  Stdout :: "chan option"
  Stderr :: "chan option"
  Stdin :: "chan option"

text \<open>
  The part of \<^verbatim>\<open>exec.Cmd\<close> that \<^verbatim>\<open>Start\<close> uses. A standard stream of the child that was
  left \<^verbatim>\<open>nil\<close> is connected to the null device; otherwise to a pipe.
\<close>

datatype stdio = DevNull | Pipe

record Cmd =
  cmd_Path :: string
  cmd_Args :: "string list"
  cmd_Env :: "string list option"
  cmd_Stdin :: stdio
  cmd_Stdout :: stdio
  cmd_Stderr :: stdio
  cmd_Process :: "nat option"     \<comment> \<open>the started process, \<^verbatim>\<open>nil\<close> before\<close>

text \<open>A running child process, as the operating system has it.\<close>

record process =
  image :: string
  argv :: "string list"
  envp :: "string list"
  proc_stdin :: stdio

text \<open>The goroutines that \<^verbatim>\<open>Start\<close> spawns.\<close>

datatype task =
    StdinRelay chan                       \<comment> \<open>\<^verbatim>\<open>go func() { for line := range c.Stdin ... }()\<close>\<close>
  | Reader stream "chan option" osfile      \<comment> \<open>\<^verbatim>\<open>go read(bufio.NewScanner(pipe), ch, f)\<close>\<close>

text \<open>
  The operating system and the \<^verbatim>\<open>os/exec\<close> package, as far as \<^verbatim>\<open>Start\<close> depends on
  them: whether the named executable can be found, the error (if any) of each pipe
  acquisition and of the process start, and \<^verbatim>\<open>os.Environ()\<close> of the calling process.
\<close>

record runtime =
  executable :: "string \<Rightarrow> bool"
  stdin_pipe_err :: "error option"
  stdout_pipe_err :: "error option"
  stderr_pipe_err :: "error option"
  start_err :: "error option"
  environ :: "string list"

text \<open>
  The state that a launch works on: the \<^verbatim>\<open>Command\<close> that the receiver \<^verbatim>\<open>c\<close> points
  to, the goroutines alive, the child processes running, and the pipes acquired.
\<close>

record sys =
  command :: Command
  goroutines :: "task list"
  processes :: "process list"
  pipes :: "stream list"

text \<open>\<^verbatim>\<open>exec.CommandContext(ctx, name, arg...)\<close>: the argument vector starts with the name.\<close>

definition CommandContext :: "string \<Rightarrow> string list \<Rightarrow> Cmd" where
  "CommandContext name arg =
     \<lparr>cmd_Path = name, cmd_Args = name # arg, cmd_Env = None, cmd_Stdin = DevNull,
      cmd_Stdout = DevNull, cmd_Stderr = DevNull, cmd_Process = None\<rparr>"

definition StdinPipe :: "runtime \<Rightarrow> Cmd \<Rightarrow> sys \<Rightarrow> error + (Cmd \<times> sys)" where
  "StdinPipe rt cmd s =
     (case stdin_pipe_err rt of
        Some e \<Rightarrow> Inl e
      | None \<Rightarrow> Inr (cmd\<lparr>cmd_Stdin := Pipe\<rparr>, s\<lparr>pipes := pipes s @ [ChildStdin]\<rparr>))"

definition StdoutPipe :: "runtime \<Rightarrow> Cmd \<Rightarrow> sys \<Rightarrow> error + (Cmd \<times> sys)" where
  "StdoutPipe rt cmd s =
     (case stdout_pipe_err rt of
        Some e \<Rightarrow> Inl e
      | None \<Rightarrow> Inr (cmd\<lparr>cmd_Stdout := Pipe\<rparr>, s\<lparr>pipes := pipes s @ [ChildStdout]\<rparr>))"

definition StderrPipe :: "runtime \<Rightarrow> Cmd \<Rightarrow> sys \<Rightarrow> error + (Cmd \<times> sys)" where
  "StderrPipe rt cmd s =
     (case stderr_pipe_err rt of
        Some e \<Rightarrow> Inl e
      | None \<Rightarrow> Inr (cmd\<lparr>cmd_Stderr := Pipe\<rparr>, s\<lparr>pipes := pipes s @ [ChildStderr]\<rparr>))"

text \<open>
  How \<^verbatim>\<open>os/exec\<close> makes the child's environment from a list of entries (its
  \<^verbatim>\<open>dedupEnv\<close>, as on Unix): of the entries with the same key only the last one is kept,
  at its place; the key of an entry ends before its first \<^verbatim>\<open>=\<close>, or before its second
  when the entry begins with one; an entry without \<^verbatim>\<open>=\<close> is kept unless it is empty;
  an entry with a NUL byte is left out. (Windows adds \<^verbatim>\<open>SYSTEMROOT\<close> on top.)
\<close>

definition env_key :: "string \<Rightarrow> string option" where
  "env_key kv =
     (if CHR ''='' \<notin> set kv then None
      else if hd kv = CHR ''='' then
        (if CHR ''='' \<in> set (tl kv)
         then Some (CHR ''='' # takeWhile (\<lambda>b. b \<noteq> CHR ''='') (tl kv))
         else Some [])
      else Some (takeWhile (\<lambda>b. b \<noteq> CHR ''='') kv))"

text \<open>The loop of \<^verbatim>\<open>dedupEnv\<close>, which runs from the last entry to the first.\<close>

fun dedup_rev :: "string list \<Rightarrow> string list \<Rightarrow> string list" where
  "dedup_rev [] saw = []"
| "dedup_rev (kv # rest) saw =
     (if CHR 0x00 \<in> set kv then dedup_rev rest saw
      else case env_key kv of
        None \<Rightarrow> (if kv \<noteq> [] then kv # dedup_rev rest saw else dedup_rev rest saw)
      | Some k \<Rightarrow>
          if k \<in> set saw then dedup_rev rest saw
          else kv # dedup_rev rest (k # saw))"

definition dedupEnv :: "string list \<Rightarrow> string list" where
  "dedupEnv env = rev (dedup_rev (rev env) [])"

text \<open>
  \<^verbatim>\<open>cmd.Start()\<close>: an error when the executable is not found or the process cannot be
  started (\<open>start_err\<close> stands for every such error of the runtime, the one for an
  environment entry with a NUL byte among them); otherwise a new process. A \<^verbatim>\<open>nil\<close>
  \<^verbatim>\<open>Env\<close> stands for the environment of the calling process; the child's environment
  is made from the entries by \<open>dedupEnv\<close>.
\<close>

definition cmd_Start :: "runtime \<Rightarrow> Cmd \<Rightarrow> sys \<Rightarrow> error + (Cmd \<times> sys)" where
  "cmd_Start rt cmd s =
     (if \<not> executable rt (cmd_Path cmd) then Inl (Err ''executable file not found'')
      else case start_err rt of
        Some e \<Rightarrow> Inl e
      | None \<Rightarrow>
          Inr (cmd\<lparr>cmd_Process := Some (length (processes s))\<rparr>,
               s\<lparr>processes := processes s @
                    [\<lparr>image = cmd_Path cmd, argv = cmd_Args cmd,
                      envp = dedupEnv
                        (case cmd_Env cmd of None \<Rightarrow> environ rt | Some env \<Rightarrow> env),
                      proc_stdin = cmd_Stdin cmd\<rparr>]\<rparr>))"

text \<open>
  \<^verbatim>\<open>go f()\<close>: the goroutine is alive from here on.
\<close>

definition spawn :: "task \<Rightarrow> sys \<Rightarrow> sys" where
  "spawn t s = s\<lparr>goroutines := goroutines s @ [t]\<rparr>"

text \<open>
  \<^verbatim>\<open>func (c *Command) Start(ctx context.Context) (*exec.Cmd, error)\<close>, lines 39 to 99.
  The result is the pair that the function returns, and the state it leaves. The context
  \<^verbatim>\<open>ctx\<close> only serves to stop the child later and is left out.
\<close>

definition Start :: "runtime \<Rightarrow> sys \<Rightarrow> (Cmd option \<times> error option) \<times> sys" where
  "Start rt s =
     (let c = command s;
          cmd = CommandContext (Name c) (Args c);
          cmd = cmd\<lparr>cmd_Env := Env c\<rparr>
      in
      case (case Stdin c of
              None \<Rightarrow> Inr (cmd, s)
            | Some src \<Rightarrow>
                (case StdinPipe rt cmd s of
                   Inl err \<Rightarrow> Inl err
                 | Inr (cmd, s) \<Rightarrow> Inr (cmd, spawn (StdinRelay src) s))) of
        Inl err \<Rightarrow> ((None, Some err), s)
      | Inr (cmd, s) \<Rightarrow>
          (case StdoutPipe rt cmd s of
             Inl err \<Rightarrow> ((None, Some err), s)
           | Inr (cmd, s) \<Rightarrow>
               (case StderrPipe rt cmd s of
                  Inl err \<Rightarrow> ((None, Some err), s)
                | Inr (cmd, s) \<Rightarrow>
                    (case cmd_Start rt cmd s of
                       Inl err \<Rightarrow> ((None, Some err), s)
                     | Inr (cmd, s) \<Rightarrow>
                         (let s = spawn (Reader ChildStdout (Stdout c) OsStdout) s;
                              s = spawn (Reader ChildStderr (Stderr c) OsStderr) s
                          in ((Some cmd, None), s))))))"

text \<open>
  What the goroutines work on: the scanner over each output pipe of the child, and what
  the caller does with each channel it passed as \<^verbatim>\<open>Stdin\<close>.
\<close>

record io =
  child_output :: "stream \<Rightarrow> scanner"
  sources :: "chan \<Rightarrow> source"

text \<open>Running one goroutine to its end.\<close>

fun run_task :: "io \<Rightarrow> task \<Rightarrow> world \<Rightarrow> outcome \<times> world" where
  "run_task env (StdinRelay src) w =
     (case stdin_relay (sources env src) (stdin_pipe w) of
        (r, p) \<Rightarrow> (r, w\<lparr>stdin_pipe := p\<rparr>))"
| "run_task env (Reader st ch f) w = read (child_output env st) ch f w"

subsection \<open>Initial states\<close>

text \<open>A pipe nothing was written to, with a script of answers and an answer for closing.\<close>

definition new_pipe :: "wscript list \<Rightarrow> error option \<Rightarrow> pipe" where
  "new_pipe sc cr = \<lparr>content = [], calls = [], script = sc, close_res = cr, closes = 0\<rparr>"

text \<open>
  The world at a launch: every channel open, nothing delivered yet, and a caller that
  takes up to \<open>n\<close> lines from each sink.
\<close>

definition new_world :: "nat \<Rightarrow> pipe \<Rightarrow> world" where
  "new_world n p = \<lparr>is_closed = (\<lambda>c. False), takes = (\<lambda>c. n), trace = [], stdin_pipe = p\<rparr>"

text \<open>No goroutine, no child process and no pipe yet.\<close>

definition new_sys :: "Command \<Rightarrow> sys" where
  "new_sys c = \<lparr>command = c, goroutines = [], processes = [], pipes = []\<rparr>"

text \<open>
  A runtime that finds exactly the executables of a list and fails nowhere else.
\<close>

definition plain_runtime :: "string list \<Rightarrow> string list \<Rightarrow> runtime" where
  "plain_runtime exes env =
     \<lparr>executable = (\<lambda>n. n \<in> set exes), stdin_pipe_err = None, stdout_pipe_err = None,
      stderr_pipe_err = None, start_err = None, environ = env\<rparr>"

text \<open>
  Surroundings in which the child prints nothing and the caller has neither sent a line
  into a stdin channel nor closed it.
\<close>

definition quiet_io :: io where
  "quiet_io =
     \<lparr>child_output = (\<lambda>st. \<lparr>tokens = [], scan_err = None\<rparr>),
      sources = (\<lambda>c. \<lparr>sent = [], shut = False\<rparr>)\<rparr>"

text \<open>
  Surroundings in which the child prints the given lines on its standard output and
  standard error and then ends both streams.
\<close>

definition printing_io :: "string list \<Rightarrow> string list \<Rightarrow> io" where
  "printing_io out err =
     \<lparr>child_output =
        (\<lambda>st. \<lparr>tokens = (case st of ChildStdin \<Rightarrow> [] | ChildStdout \<Rightarrow> out | ChildStderr \<Rightarrow> err),
               scan_err = None\<rparr>),
      sources = (\<lambda>c. \<lparr>sent = [], shut = False\<rparr>)\<rparr>"


subsection \<open>Scripted answers that let a write through\<close>

text \<open>
  An answer to \<^verbatim>\<open>Write(data)\<close> that passes both checks of the relay: no error, and a
  count equal to \<^verbatim>\<open>len(data)\<close>.
\<close>

fun full_write :: "wscript \<Rightarrow> string \<Rightarrow> bool" where
  "full_write WriteAll data = True"
| "full_write (WriteSome n e) data = (e = None \<and> length data \<le> n)"

text \<open>The answers to the writes of the given lines all pass.\<close>

fun all_full :: "string list \<Rightarrow> wscript list \<Rightarrow> bool" where
  "all_full [] sc = True"
| "all_full (l # ls) [] = True"
| "all_full (l # ls) (r # rs) = (full_write r l \<and> all_full ls rs)"

section \<open>Properties\<close>

subsection \<open>The stdin relay\<close>

lemma pipe_Write_full:
  assumes "case script p of [] \<Rightarrow> True | r # rs \<Rightarrow> full_write r l"
  shows "pipe_Write p l =
           ((length l, None),
            p\<lparr>content := content p @ l, calls := calls p @ [l], script := tl (script p)\<rparr>)"
proof (cases "script p")
  case Nil
  then show ?thesis by (simp add: pipe_Write_def)
next
  case (Cons r rs)
  with assms have "full_write r l" by simp
  with Cons show ?thesis
    by (cases r) (simp_all add: pipe_Write_def min_absorb2)
qed

lemma stdin_loop_full:
  "all_full ls (script p) \<Longrightarrow>
   stdin_loop (ls @ ms) p =
     stdin_loop ms
       (p\<lparr>content := content p @ concat ls, calls := calls p @ ls,
          script := drop (length ls) (script p)\<rparr>)"
proof (induction ls arbitrary: p)
  case Nil
  then show ?case by simp
next
  case (Cons l ls)
  have ok: "case script p of [] \<Rightarrow> True | r # rs \<Rightarrow> full_write r l"
    using Cons.prems by (cases "script p") simp_all
  let ?p = "p\<lparr>content := content p @ l, calls := calls p @ [l], script := tl (script p)\<rparr>"
  have rest: "all_full ls (script ?p)"
    using Cons.prems by (cases "script p"; cases ls) simp_all
  have "stdin_loop ((l # ls) @ ms) p = stdin_loop (ls @ ms) ?p"
    by (simp add: pipe_Write_full [OF ok])
  also have "\<dots> = stdin_loop ms
       (?p\<lparr>content := content ?p @ concat ls, calls := calls ?p @ ls,
          script := drop (length ls) (script ?p)\<rparr>)"
    by (rule Cons.IH [OF rest])
  finally show ?case by (simp add: drop_Suc)
qed

lemma stdin_loop_all:
  "all_full ls (script p) \<Longrightarrow>
   stdin_loop ls p =
     (None, p\<lparr>content := content p @ concat ls, calls := calls p @ ls,
              script := drop (length ls) (script p)\<rparr>)"
  using stdin_loop_full [of ls p "[]"] by simp

lemma stdin_loop_None:
  "stdin_loop ls p = (None, p') \<Longrightarrow>
   content p' = content p @ concat ls \<and> calls p' = calls p @ ls \<and>
   closes p' = closes p \<and> close_res p' = close_res p"
proof (induction ls arbitrary: p)
  case Nil
  then show ?case by simp
next
  case (Cons l ls)
  obtain c e q where w: "pipe_Write p l = ((c, e), q)"
    by (metis prod.exhaust)
  from Cons.prems w have e: "e = None" and c: "c = length l" and r: "stdin_loop ls q = (None, p')"
    by (auto split: option.splits if_splits)
  from w e c have q: "content q = content p @ l \<and> calls q = calls p @ [l] \<and>
      closes q = closes p \<and> close_res q = close_res p"
    by (auto simp: pipe_Write_def split: list.splits wscript.splits)
  from Cons.IH [OF r] q show ?case by simp
qed

lemma stdin_loop_fails:
  assumes "all_full ls (script p)" and "drop (length ls) (script p) = r # rs"
    and "\<not> full_write r l"
  shows "\<exists>pn q. stdin_loop (ls @ l # rest) p = (Some pn, q) \<and>
           (case r of
              WriteAll \<Rightarrow> False
            | WriteSome n None \<Rightarrow> pn = ShortWrite n (length l)
            | WriteSome n (Some e) \<Rightarrow> pn = CannotWriteStdin e) \<and>
           calls q = calls p @ ls @ [l] \<and> closes q = closes p"
proof -
  let ?p = "p\<lparr>content := content p @ concat ls, calls := calls p @ ls, script := r # rs\<rparr>"
  have step: "stdin_loop (ls @ l # rest) p = stdin_loop (l # rest) ?p"
    using stdin_loop_full [OF assms(1), of "l # rest"] assms(2) by simp
  from assms(3) obtain n eo where r: "r = WriteSome n eo" and bad: "eo \<noteq> None \<or> n < length l"
    by (cases r) auto
  show ?thesis
  proof (cases eo)
    case None
    with bad have "n < length l" by simp
    with r None show ?thesis
      unfolding step by (simp add: pipe_Write_def min_absorb1)
  next
    case (Some e)
    with r show ?thesis
      unfolding step by (simp add: pipe_Write_def)
  qed
qed

lemma Start_spawns_stdin_relay:
  "Stdin (command sy) = Some ch \<Longrightarrow> stdin_pipe_err rt = None \<Longrightarrow>
   StdinRelay ch \<in> set (goroutines (snd (Start rt sy)))"
  by (auto simp: Start_def Let_def StdinPipe_def StdoutPipe_def StderrPipe_def cmd_Start_def
      spawn_def split: option.splits sum.splits)

text \<open>
  C2. A launch with a stdin source whose pipe could be acquired spawns the stdin relay
  on that source. The stdin relay makes one \<^verbatim>\<open>Write\<close> call per line of the source, with exactly the
  line's bytes and in source order. When every write goes through and the source is
  closed, it closes the child's standard input once and returns. The first write that
  reports an error or a count other than the line's length makes the goroutine panic
  (which ends the program): no later line is written and the pipe is not closed. When
  closing the pipe fails, the goroutine panics with that error.
\<close>

theorem stdin_relay_writes_then_closes:
  "(all_full (sent src) (script p) \<and> shut src \<and> close_res p = None \<longrightarrow>
      stdin_relay src p =
        (Done, p\<lparr>content := content p @ concat (sent src), calls := calls p @ sent src,
                 script := drop (length (sent src)) (script p),
                 closes := Suc (closes p)\<rparr>)) \<and>
   (sent src = ls @ l # rest \<and> all_full ls (script p) \<and>
    drop (length ls) (script p) = r # rs \<and> \<not> full_write r l \<longrightarrow>
      (\<exists>pn q. stdin_relay src p = (Panicked pn, q) \<and>
         (case r of
            WriteAll \<Rightarrow> False
          | WriteSome n None \<Rightarrow> pn = ShortWrite n (length l)
          | WriteSome n (Some e) \<Rightarrow> pn = CannotWriteStdin e) \<and>
         calls q = calls p @ ls @ [l] \<and> closes q = closes p)) \<and>
   (all_full (sent src) (script p) \<and> shut src \<and> close_res p = Some err \<longrightarrow>
      (\<exists>q. stdin_relay src p = (Panicked (CloseStdinFailed err), q) \<and>
         calls q = calls p @ sent src \<and> closes q = Suc (closes p))) \<and>
   (Stdin (command sy) = Some ch \<and> stdin_pipe_err rt = None \<longrightarrow>
      StdinRelay ch \<in> set (goroutines (snd (Start rt sy))) \<and>
      fst (run_task env (StdinRelay ch) w) =
        fst (stdin_relay (sources env ch) (stdin_pipe w)) \<and>
      stdin_pipe (snd (run_task env (StdinRelay ch) w)) =
        snd (stdin_relay (sources env ch) (stdin_pipe w)))"
proof (intro conjI impI)
  assume "all_full (sent src) (script p) \<and> shut src \<and> close_res p = None"
  then show "stdin_relay src p =
        (Done, p\<lparr>content := content p @ concat (sent src), calls := calls p @ sent src,
                 script := drop (length (sent src)) (script p),
                 closes := Suc (closes p)\<rparr>)"
    by (simp add: stdin_relay_def stdin_loop_all pipe_Close_def)
next
  assume a: "sent src = ls @ l # rest \<and> all_full ls (script p) \<and>
    drop (length ls) (script p) = r # rs \<and> \<not> full_write r l"
  then obtain pn q where "stdin_loop (ls @ l # rest) p = (Some pn, q)"
    and "case r of
            WriteAll \<Rightarrow> False
          | WriteSome n None \<Rightarrow> pn = ShortWrite n (length l)
          | WriteSome n (Some e) \<Rightarrow> pn = CannotWriteStdin e"
    and "calls q = calls p @ ls @ [l]" and "closes q = closes p"
    using stdin_loop_fails [of ls p r rs l rest] by blast
  with a show "\<exists>pn q. stdin_relay src p = (Panicked pn, q) \<and>
         (case r of
            WriteAll \<Rightarrow> False
          | WriteSome n None \<Rightarrow> pn = ShortWrite n (length l)
          | WriteSome n (Some e) \<Rightarrow> pn = CannotWriteStdin e) \<and>
         calls q = calls p @ ls @ [l] \<and> closes q = closes p"
    by (simp add: stdin_relay_def)
next
  assume "all_full (sent src) (script p) \<and> shut src \<and> close_res p = Some err"
  then show "\<exists>q. stdin_relay src p = (Panicked (CloseStdinFailed err), q) \<and>
         calls q = calls p @ sent src \<and> closes q = Suc (closes p)"
    by (simp add: stdin_relay_def stdin_loop_all pipe_Close_def)
next
  assume "Stdin (command sy) = Some ch \<and> stdin_pipe_err rt = None"
  then show "StdinRelay ch \<in> set (goroutines (snd (Start rt sy)))"
    by (simp add: Start_spawns_stdin_relay)
next
  show "fst (run_task env (StdinRelay ch) w) =
        fst (stdin_relay (sources env ch) (stdin_pipe w))"
    by (simp split: prod.splits)
next
  show "stdin_pipe (snd (run_task env (StdinRelay ch) w)) =
        snd (stdin_relay (sources env ch) (stdin_pipe w))"
    by (simp split: prod.splits)
qed

theorem stdin_relay_writes_then_closes_witness:
  "stdin_relay \<lparr>sent = [''ab'', ''cd''], shut = True\<rparr> (new_pipe [] None) =
     (Done, \<lparr>content = ''abcd'', calls = [''ab'', ''cd''], script = [], close_res = None,
             closes = 1\<rparr>) \<and>
   (\<exists>q. stdin_relay \<lparr>sent = [''ab'', ''cd'', ''ef''], shut = True\<rparr>
          (new_pipe [WriteAll, WriteSome 1 None] None) = (Panicked (ShortWrite 1 2), q) \<and>
        calls q = [''ab'', ''cd''] \<and> closes q = 0) \<and>
   (\<exists>q. stdin_relay \<lparr>sent = [''ab'', ''cd'', ''ef''], shut = True\<rparr>
          (new_pipe [WriteSome 0 (Some (Err ''broken pipe''))] None) =
            (Panicked (CannotWriteStdin (Err ''broken pipe'')), q) \<and>
        calls q = [''ab''] \<and> closes q = 0) \<and>
   (\<exists>q. stdin_relay \<lparr>sent = [''ab''], shut = True\<rparr>
          (new_pipe [] (Some (Err ''file already closed''))) =
            (Panicked (CloseStdinFailed (Err ''file already closed'')), q) \<and>
        calls q = [''ab''] \<and> closes q = 1) \<and>
   StdinRelay 0 \<in> set (goroutines (snd (Start (plain_runtime [''grep''] [])
     (new_sys \<lparr>Name = ''grep'', Args = [''.''], Env = None, Stdout = None, Stderr = None,
               Stdin = Some 0\<rparr>))))"
proof (intro conjI)
  show "StdinRelay 0 \<in> set (goroutines (snd (Start (plain_runtime [''grep''] [])
     (new_sys \<lparr>Name = ''grep'', Args = [''.''], Env = None, Stdout = None, Stderr = None,
               Stdin = Some 0\<rparr>))))"
    using stdin_relay_writes_then_closes
      [where sy = "new_sys \<lparr>Name = ''grep'', Args = [''.''], Env = None, Stdout = None,
                  Stderr = None, Stdin = Some 0\<rparr>" and ch = 0 and
             rt = "plain_runtime [''grep''] []"]
    by (simp add: new_sys_def plain_runtime_def)
  show "stdin_relay \<lparr>sent = [''ab'', ''cd''], shut = True\<rparr> (new_pipe [] None) =
     (Done, \<lparr>content = ''abcd'', calls = [''ab'', ''cd''], script = [], close_res = None,
             closes = 1\<rparr>)"
    using stdin_relay_writes_then_closes
      [of "\<lparr>sent = [''ab'', ''cd''], shut = True\<rparr>" "new_pipe [] None"]
    by (simp add: new_pipe_def)
  show "\<exists>q. stdin_relay \<lparr>sent = [''ab'', ''cd'', ''ef''], shut = True\<rparr>
          (new_pipe [WriteAll, WriteSome 1 None] None) = (Panicked (ShortWrite 1 2), q) \<and>
        calls q = [''ab'', ''cd''] \<and> closes q = 0"
    using stdin_relay_writes_then_closes
      [of "\<lparr>sent = [''ab'', ''cd'', ''ef''], shut = True\<rparr>"
          "new_pipe [WriteAll, WriteSome 1 None] None"
          "[''ab'']" "''cd''" "[''ef'']" "WriteSome 1 None" "[]"]
    by (simp add: new_pipe_def numeral_2_eq_2)
  show "\<exists>q. stdin_relay \<lparr>sent = [''ab'', ''cd'', ''ef''], shut = True\<rparr>
          (new_pipe [WriteSome 0 (Some (Err ''broken pipe''))] None) =
            (Panicked (CannotWriteStdin (Err ''broken pipe'')), q) \<and>
        calls q = [''ab''] \<and> closes q = 0"
    using stdin_relay_writes_then_closes
      [of "\<lparr>sent = [''ab'', ''cd'', ''ef''], shut = True\<rparr>"
          "new_pipe [WriteSome 0 (Some (Err ''broken pipe''))] None"
          "[]" "''ab''" "[''cd'', ''ef'']" "WriteSome 0 (Some (Err ''broken pipe''))" "[]"]
    by (simp add: new_pipe_def)
  show "\<exists>q. stdin_relay \<lparr>sent = [''ab''], shut = True\<rparr>
          (new_pipe [] (Some (Err ''file already closed''))) =
            (Panicked (CloseStdinFailed (Err ''file already closed'')), q) \<and>
        calls q = [''ab''] \<and> closes q = 1"
    using stdin_relay_writes_then_closes
      [of "\<lparr>sent = [''ab''], shut = True\<rparr>"
          "new_pipe [] (Some (Err ''file already closed''))" _ _ _ _ _
          "Err ''file already closed''"]
    by (simp add: new_pipe_def)
qed

lemma pipe_Write_calls: "calls (snd (pipe_Write p l)) = calls p @ [l]"
  by (simp add: pipe_Write_def split: list.splits wscript.splits)

lemma pipe_Write_content:
  "content (snd (pipe_Write p l)) = content p @ take (fst (fst (pipe_Write p l))) l"
  by (auto simp: pipe_Write_def min_def split: list.splits wscript.splits)

lemma stdin_loop_calls_prefix:
  "\<exists>k\<le>length ls. calls (snd (stdin_loop ls p)) = calls p @ take k ls"
proof (induction ls arbitrary: p)
  case Nil
  show ?case by simp
next
  case (Cons l ls)
  obtain c e q where w: "pipe_Write p l = ((c, e), q)"
    by (metis prod.exhaust)
  with pipe_Write_calls [of p l] have q: "calls q = calls p @ [l]"
    by simp
  show ?case
  proof (cases "e = None \<and> c = length l")
    case True
    from Cons.IH [of q] obtain k
      where "k \<le> length ls" and "calls (snd (stdin_loop ls q)) = calls q @ take k ls"
      by blast
    with w q True
    have "Suc k \<le> length (l # ls) \<and>
      calls (snd (stdin_loop (l # ls) p)) = calls p @ take (Suc k) (l # ls)"
      by simp
    then show ?thesis by blast
  next
    case False
    with w q have "calls (snd (stdin_loop (l # ls) p)) = calls p @ take (Suc 0) (l # ls)"
      by (auto split: option.splits)
    moreover have "Suc 0 \<le> length (l # ls)" by simp
    ultimately show ?thesis by blast
  qed
qed

lemma stdin_loop_content_prefix:
  "\<exists>bs. content p @ concat ls = content (snd (stdin_loop ls p)) @ bs"
proof (induction ls arbitrary: p)
  case Nil
  show ?case by simp
next
  case (Cons l ls)
  obtain c e q where w: "pipe_Write p l = ((c, e), q)"
    by (metis prod.exhaust)
  with pipe_Write_content [of p l] have q: "content q = content p @ take c l"
    by simp
  show ?case
  proof (cases "e = None \<and> c = length l")
    case True
    from Cons.IH [of q] obtain bs
      where "content q @ concat ls = content (snd (stdin_loop ls q)) @ bs"
      by blast
    with w q True
    have "content p @ concat (l # ls) = content (snd (stdin_loop (l # ls) p)) @ bs"
      by simp
    then show ?thesis by blast
  next
    case False
    with w have "snd (stdin_loop (l # ls) p) = q"
      by (auto split: option.splits)
    with q have "content p @ concat (l # ls) =
        content (snd (stdin_loop (l # ls) p)) @ (drop c l @ concat ls)"
      by simp
    then show ?thesis by blast
  qed
qed

lemma stdin_relay_pipe:
  "calls (snd (stdin_relay src p)) = calls (snd (stdin_loop (sent src) p)) \<and>
   content (snd (stdin_relay src p)) = content (snd (stdin_loop (sent src) p))"
  by (simp add: stdin_relay_def pipe_Close_def split: prod.splits option.splits)

text \<open>
  C9. Every \<^verbatim>\<open>Write\<close> call of the stdin relay has exactly one line of the source as
  its argument, line after line in source order and with nothing appended, whether the
  source has been closed yet or not; and the bytes that have reached the child are
  always the beginning of the concatenation of the source's lines. When every write goes
  through, the calls made are all the lines received and the child's input is exactly
  their concatenation; the relay then waits for more lines while the source is open, and
  closes the pipe and returns once the source is closed.
\<close>

theorem stdin_relay_no_terminator:
  "(\<exists>k\<le>length (sent src). calls (snd (stdin_relay src p)) = calls p @ take k (sent src)) \<and>
   (\<exists>bs. content p @ concat (sent src) = content (snd (stdin_relay src p)) @ bs) \<and>
   (all_full (sent src) (script p) \<longrightarrow>
      calls (snd (stdin_relay src p)) = calls p @ sent src \<and>
      content (snd (stdin_relay src p)) = content p @ concat (sent src) \<and>
      fst (stdin_relay src p) =
        (if shut src
         then (case close_res p of None \<Rightarrow> Done | Some e \<Rightarrow> Panicked (CloseStdinFailed e))
         else Blocked))"
proof (intro conjI impI)
  show "\<exists>k\<le>length (sent src). calls (snd (stdin_relay src p)) = calls p @ take k (sent src)"
    using stdin_loop_calls_prefix [of "sent src" p] by (simp add: stdin_relay_pipe)
  show "\<exists>bs. content p @ concat (sent src) = content (snd (stdin_relay src p)) @ bs"
    using stdin_loop_content_prefix [of p "sent src"] by (simp add: stdin_relay_pipe)
next
  assume a: "all_full (sent src) (script p)"
  show "calls (snd (stdin_relay src p)) = calls p @ sent src"
    by (simp add: stdin_relay_pipe stdin_loop_all [OF a])
  show "content (snd (stdin_relay src p)) = content p @ concat (sent src)"
    by (simp add: stdin_relay_pipe stdin_loop_all [OF a])
  show "fst (stdin_relay src p) =
        (if shut src
         then (case close_res p of None \<Rightarrow> Done | Some e \<Rightarrow> Panicked (CloseStdinFailed e))
         else Blocked)"
    by (simp add: stdin_relay_def stdin_loop_all [OF a] pipe_Close_def split: option.splits)
qed

theorem stdin_relay_no_terminator_witness:
  "calls (snd (stdin_relay \<lparr>sent = [''This output'', '' should be seen''], shut = False\<rparr>
     (new_pipe [] None))) = [''This output'', '' should be seen''] \<and>
   content (snd (stdin_relay \<lparr>sent = [''This output'', '' should be seen''], shut = False\<rparr>
     (new_pipe [] None))) = ''This output should be seen'' \<and>
   fst (stdin_relay \<lparr>sent = [''This output'', '' should be seen''], shut = False\<rparr>
     (new_pipe [] None)) = Blocked \<and>
   content (snd (stdin_relay \<lparr>sent = [''This output'', '' should be seen''], shut = True\<rparr>
     (new_pipe [] None))) = ''This output should be seen'' \<and>
   fst (stdin_relay \<lparr>sent = [''This output'', '' should be seen''], shut = True\<rparr>
     (new_pipe [] None)) = Done"
  using stdin_relay_no_terminator
      [of "\<lparr>sent = [''This output'', '' should be seen''], shut = False\<rparr>" "new_pipe [] None"]
    stdin_relay_no_terminator
      [of "\<lparr>sent = [''This output'', '' should be seen''], shut = True\<rparr>" "new_pipe [] None"]
  by (simp add: new_pipe_def)

subsection \<open>The output relays\<close>



lemma written_append: "written f (es @ es') = written f es @ written f es'"
  by (induction f es rule: written.induct) simp_all



lemma written_Prints:
  "written f (map (\<lambda>l. Print f (l @ [CHR 0x0A])) ls) = concat (map (\<lambda>l. l @ [CHR 0x0A]) ls)"
  by (induction ls) simp_all

lemma read_loop_sink:
  "\<not> is_closed w c \<Longrightarrow> length ls \<le> takes w c \<Longrightarrow>
   read_loop ls (Some c) f w =
     (Done, w\<lparr>takes := (takes w)(c := takes w c - length ls),
              trace := trace w @ map (Send c) ls\<rparr>)"
proof (induction ls arbitrary: w)
  case Nil
  then show ?case by simp
next
  case (Cons l ls)
  let ?w = "w\<lparr>takes := (takes w)(c := takes w c - 1), trace := trace w @ [Send c l]\<rparr>"
  from Cons.prems have s: "send c l w = (Done, ?w)"
    by (simp add: send_def)
  from Cons.prems have "\<not> is_closed ?w c" and "length ls \<le> takes ?w c"
    by simp_all
  from Cons.IH [OF this]
  have "read_loop ls (Some c) f ?w =
     (Done, ?w\<lparr>takes := (takes ?w)(c := takes ?w c - length ls),
               trace := trace ?w @ map (Send c) ls\<rparr>)" .
  moreover have "(takes ?w)(c := takes ?w c - length ls) =
      (takes w)(c := takes w c - length (l # ls))"
    by (simp add: fun_eq_iff)
  ultimately have "read_loop ls (Some c) f ?w =
     (Done, w\<lparr>takes := (takes w)(c := takes w c - length (l # ls)),
              trace := trace w @ map (Send c) (l # ls)\<rparr>)"
    by simp
  with s show ?case by (simp add: fun_upd_def)
qed

lemma read_loop_echo:
  "read_loop ls None f w =
     (Done, w\<lparr>trace := trace w @ map (\<lambda>l. Print f (l @ [CHR 0x0A])) ls\<rparr>)"
  by (induction ls arbitrary: w) (simp_all add: Fprintln_def)

lemma read_sink:
  assumes "\<not> is_closed w c" and "length (tokens s) \<le> takes w c"
  shows "read s (Some c) f w =
     (Done, w\<lparr>is_closed := (is_closed w)(c := True),
              takes := (takes w)(c := takes w c - length (tokens s)),
              trace := trace w @ map (Send c) (tokens s) @ [Close c]\<rparr>)"
  using assms by (simp add: read_def read_loop_sink close_chan_def)

lemma read_echo:
  "read s None f w =
     (Done, w\<lparr>trace := trace w @ map (\<lambda>l. Print f (l @ [CHR 0x0A])) (tokens s)\<rparr>)"
  by (simp add: read_def read_loop_echo)

subsection \<open>The launch\<close>

lemma Start_goroutines:
  "fst (Start rt s) = (Some cmd, None) \<Longrightarrow>
   goroutines (snd (Start rt s)) =
     goroutines s @ (case Stdin (command s) of None \<Rightarrow> [] | Some src \<Rightarrow> [StdinRelay src]) @
     [Reader ChildStdout (Stdout (command s)) OsStdout,
      Reader ChildStderr (Stderr (command s)) OsStderr]"
  by (auto simp: Start_def Let_def StdinPipe_def StdoutPipe_def StderrPipe_def cmd_Start_def
      spawn_def split: option.splits sum.splits if_splits)

lemma Start_echo:
  "fst (Start (plain_runtime [''echo''] penv)
         (new_sys \<lparr>Name = ''echo'', Args = args, Env = cenv, Stdout = so, Stderr = se,
                   Stdin = None\<rparr>)) =
     (Some \<lparr>cmd_Path = ''echo'', cmd_Args = ''echo'' # args, cmd_Env = cenv, cmd_Stdin = DevNull,
            cmd_Stdout = Pipe, cmd_Stderr = Pipe, cmd_Process = Some 0\<rparr>, None)"
  by (simp add: Start_def Let_def CommandContext_def StdoutPipe_def StderrPipe_def
      cmd_Start_def spawn_def plain_runtime_def new_sys_def)








text \<open>
  C6. After a successful launch with no sink supplied for standard output (respectively
  standard error), a reader goroutine for that stream is running, and it writes every
  line of the stream, followed by a newline, to the parent's standard output
  (respectively standard error), in the order of the stream.
\<close>

theorem launch_without_sink_echoes_lines:
  assumes "fst (Start rt sy) = (Some cmd, None)"
    and "(st, ch, f) = (ChildStdout, Stdout (command sy), OsStdout) \<or>
         (st, ch, f) = (ChildStderr, Stderr (command sy), OsStderr)"
    and "ch = None"
  shows "Reader st None f \<in> set (goroutines (snd (Start rt sy))) \<and>
         run_task env (Reader st None f) w =
           (Done, w\<lparr>trace := trace w @
              map (\<lambda>l. Print f (l @ [CHR 0x0A])) (tokens (child_output env st))\<rparr>) \<and>
         written f (trace (snd (run_task env (Reader st None f) w))) =
           written f (trace w) @
           concat (map (\<lambda>l. l @ [CHR 0x0A]) (tokens (child_output env st)))"
proof -
  from assms(2,3) have "Reader st None f \<in> set (goroutines (snd (Start rt sy)))"
    unfolding Start_goroutines [OF assms(1)] by auto
  then show ?thesis
    by (simp add: read_echo written_append written_Prints)
qed

theorem launch_without_sink_echoes_lines_witness:
  "Reader ChildStderr None OsStderr \<in>
     set (goroutines (snd (Start (plain_runtime [''echo''] [])
       (new_sys \<lparr>Name = ''echo'', Args = [''Hello George''], Env = None, Stdout = Some 0,
                 Stderr = None, Stdin = None\<rparr>)))) \<and>
   written OsStderr (trace (snd (run_task (printing_io [] [''oops'', ''bye''])
          (Reader ChildStderr None OsStderr) (new_world 0 (new_pipe [] None))))) =
     ''oops'' @ [CHR 0x0A] @ ''bye'' @ [CHR 0x0A]"
  using launch_without_sink_echoes_lines
    [OF Start_echo [where penv = "[]" and args = "[''Hello George'']" and cenv = None and
          so = "Some 0" and se = None],
      where st = ChildStderr and ch = None and f = OsStderr and
        w = "new_world 0 (new_pipe [] None)" and env = "printing_io [] [''oops'', ''bye'']"]
  by (simp add: new_sys_def new_world_def printing_io_def)

text \<open>
  C5, as the code has it. A read error on the child's stream is neither returned nor
  reported: the scanner's error is never looked at, and the relay does exactly what it
  does when the stream reaches end-of-file after the lines scanned before the error.
  With no sink it writes those lines, each followed by a newline, to the parent's stream
  and returns. With a sink that is open and whose lines the caller takes, it hands those
  lines to the sink in order, closes the sink once, and returns. In neither case does the
  program end.
\<close>

theorem read_error_ends_relay_like_eof:
  "read (s\<lparr>scan_err := Some e\<rparr>) ch f w = read (s\<lparr>scan_err := None\<rparr>) ch f w \<and>
   read (s\<lparr>scan_err := Some e\<rparr>) None f w =
     (Done, w\<lparr>trace := trace w @ map (\<lambda>l. Print f (l @ [CHR 0x0A])) (tokens s)\<rparr>) \<and>
   (\<not> is_closed w c \<and> length (tokens s) \<le> takes w c \<longrightarrow>
      read (s\<lparr>scan_err := Some e\<rparr>) (Some c) f w =
        (Done, w\<lparr>is_closed := (is_closed w)(c := True),
                 takes := (takes w)(c := takes w c - length (tokens s)),
                 trace := trace w @ map (Send c) (tokens s) @ [Close c]\<rparr>))"
proof (intro conjI impI)
  show "read (s\<lparr>scan_err := Some e\<rparr>) ch f w = read (s\<lparr>scan_err := None\<rparr>) ch f w"
    by (simp add: read_def)
  show "read (s\<lparr>scan_err := Some e\<rparr>) None f w =
     (Done, w\<lparr>trace := trace w @ map (\<lambda>l. Print f (l @ [CHR 0x0A])) (tokens s)\<rparr>)"
    by (simp add: read_echo)
next
  assume "\<not> is_closed w c \<and> length (tokens s) \<le> takes w c"
  then have "\<not> is_closed w c" and "length (tokens (s\<lparr>scan_err := Some e\<rparr>)) \<le> takes w c"
    by simp_all
  from read_sink [OF this]
  show "read (s\<lparr>scan_err := Some e\<rparr>) (Some c) f w =
        (Done, w\<lparr>is_closed := (is_closed w)(c := True),
                 takes := (takes w)(c := takes w c - length (tokens s)),
                 trace := trace w @ map (Send c) (tokens s) @ [Close c]\<rparr>)"
    by simp
qed

theorem read_error_ends_relay_like_eof_witness:
  "trace (snd (read \<lparr>tokens = [''a''],
                    scan_err = Some (Err ''read |0: file already closed'')\<rparr>
          (Some 0) OsStdout (new_world 1 (new_pipe [] None)))) = [Send 0 ''a'', Close 0] \<and>
   fst (read \<lparr>tokens = [''a''], scan_err = Some (Err ''read |0: file already closed'')\<rparr>
          (Some 0) OsStdout (new_world 1 (new_pipe [] None))) = Done"
  using read_error_ends_relay_like_eof
    [where s = "\<lparr>tokens = [''a''], scan_err = None\<rparr>" and
        e = "Err ''read |0: file already closed''" and ch = "Some 0" and f = OsStdout and
        w = "new_world 1 (new_pipe [] None)" and c = 0, THEN conjunct2, THEN conjunct2]
  by (simp add: new_world_def)

theorem read_error_counterexample:
  "fst (read \<lparr>tokens = [''a''], scan_err = Some (Err ''read |0: file already closed'')\<rparr>
          None OsStdout (new_world 0 (new_pipe [] None))) = Done"
  by (simp add: read_def Fprintln_def)

text \<open>
  C3. When the stdin pipe is to be acquired and its acquisition fails, or the
  acquisition of the stdout or stderr pipe fails, or the executable is not found, or the
  process cannot be started, \<^verbatim>\<open>Start\<close> returns no handle and an error, and the running
  processes are the ones that ran before. Otherwise it returns a handle and no error;
  the handle's process is the one new running process, made from the name and the
  arguments of the specification.
\<close>

theorem Start_error_or_handle:
  "(if (Stdin (command s) \<noteq> None \<and> stdin_pipe_err rt \<noteq> None) \<or>
       stdout_pipe_err rt \<noteq> None \<or> stderr_pipe_err rt \<noteq> None \<or>
       \<not> executable rt (Name (command s)) \<or> start_err rt \<noteq> None
    then (\<exists>err. fst (Start rt s) = (None, Some err)) \<and>
         processes (snd (Start rt s)) = processes s
    else (\<exists>cmd. fst (Start rt s) = (Some cmd, None) \<and>
            cmd_Process cmd = Some (length (processes s)) \<and>
            (\<exists>child. processes (snd (Start rt s)) = processes s @ [child] \<and>
               image child = Name (command s) \<and>
               argv child = Name (command s) # Args (command s))))"
  by (auto simp: Start_def Let_def CommandContext_def StdinPipe_def StdoutPipe_def
      StderrPipe_def cmd_Start_def spawn_def split: option.splits sum.splits)

theorem Start_error_or_handle_witness:
  "(\<exists>err. fst (Start (plain_runtime [''echo''] [])
       (new_sys \<lparr>Name = ''no-such-program'', Args = [], Env = None, Stdout = None,
                 Stderr = None, Stdin = None\<rparr>)) = (None, Some err)) \<and>
   processes (snd (Start (plain_runtime [''echo''] [])
       (new_sys \<lparr>Name = ''no-such-program'', Args = [], Env = None, Stdout = None,
                 Stderr = None, Stdin = None\<rparr>))) = [] \<and>
   (\<exists>cmd. fst (Start (plain_runtime [''echo''] [])
       (new_sys \<lparr>Name = ''echo'', Args = [''Hello George''], Env = None, Stdout = Some 0,
                 Stderr = None, Stdin = None\<rparr>)) = (Some cmd, None) \<and>
      cmd_Process cmd = Some 0)"
proof (intro conjI)
  let ?bad = "new_sys \<lparr>Name = ''no-such-program'', Args = [], Env = None, Stdout = None,
                 Stderr = None, Stdin = None\<rparr>"
  let ?good = "new_sys \<lparr>Name = ''echo'', Args = [''Hello George''], Env = None,
                 Stdout = Some 0, Stderr = None, Stdin = None\<rparr>"
  show "\<exists>err. fst (Start (plain_runtime [''echo''] []) ?bad) = (None, Some err)"
    using Start_error_or_handle [of ?bad "plain_runtime [''echo''] []"]
    by (simp add: plain_runtime_def new_sys_def)
  show "processes (snd (Start (plain_runtime [''echo''] []) ?bad)) = []"
    using Start_error_or_handle [of ?bad "plain_runtime [''echo''] []"]
    by (simp add: plain_runtime_def new_sys_def)
  show "\<exists>cmd. fst (Start (plain_runtime [''echo''] []) ?good) = (Some cmd, None) \<and>
      cmd_Process cmd = Some 0"
    using Start_error_or_handle [of ?good "plain_runtime [''echo''] []"]
    by (auto simp: plain_runtime_def new_sys_def)
qed

text \<open>
  C8. \<^verbatim>\<open>Start\<close> leaves the \<^verbatim>\<open>Command\<close> as it found it: name, arguments, environment
  and the three channels hold the values they held before the call.
\<close>

theorem Start_keeps_command:
  "command (snd (Start rt s)) = command s"
  by (auto simp: Start_def Let_def StdinPipe_def StdoutPipe_def StderrPipe_def
      cmd_Start_def spawn_def split: option.splits sum.splits)

text \<open>
  C10. With a \<^verbatim>\<open>nil\<close> stdin source, \<^verbatim>\<open>Start\<close> spawns no stdin relay (the goroutines
  it adds are none, or the two readers) and acquires no stdin pipe; the handle it returns
  and the child it starts have the standard input left at the default, the null device,
  on which a read meets end-of-input at once.
\<close>

theorem Start_without_stdin_source:
  "Stdin (command s) = None \<Longrightarrow>
   (goroutines (snd (Start rt s)) = goroutines s \<or>
    goroutines (snd (Start rt s)) =
      goroutines s @ [Reader ChildStdout (Stdout (command s)) OsStdout,
                      Reader ChildStderr (Stderr (command s)) OsStderr]) \<and>
   (pipes (snd (Start rt s)) = pipes s \<or>
    pipes (snd (Start rt s)) = pipes s @ [ChildStdout] \<or>
    pipes (snd (Start rt s)) = pipes s @ [ChildStdout, ChildStderr]) \<and>
   (\<forall>cmd. fst (Start rt s) = (Some cmd, None) \<longrightarrow>
      cmd_Stdin cmd = DevNull \<and>
      proc_stdin (last (processes (snd (Start rt s)))) = DevNull)"
  by (auto simp: Start_def Let_def CommandContext_def StdoutPipe_def StderrPipe_def
      cmd_Start_def spawn_def split: option.splits sum.splits)

theorem Start_without_stdin_source_witness:
  "goroutines (snd (Start (plain_runtime [''echo''] [])
       (new_sys \<lparr>Name = ''echo'', Args = [''Hello George''], Env = None, Stdout = Some 0,
                 Stderr = None, Stdin = None\<rparr>))) =
     [Reader ChildStdout (Some 0) OsStdout, Reader ChildStderr None OsStderr] \<and>
   pipes (snd (Start (plain_runtime [''echo''] [])
       (new_sys \<lparr>Name = ''echo'', Args = [''Hello George''], Env = None, Stdout = Some 0,
                 Stderr = None, Stdin = None\<rparr>))) = [ChildStdout, ChildStderr] \<and>
   proc_stdin (last (processes (snd (Start (plain_runtime [''echo''] [])
       (new_sys \<lparr>Name = ''echo'', Args = [''Hello George''], Env = None, Stdout = Some 0,
                 Stderr = None, Stdin = None\<rparr>))))) = DevNull"
  using Start_without_stdin_source
    [of "new_sys \<lparr>Name = ''echo'', Args = [''Hello George''], Env = None, Stdout = Some 0,
                 Stderr = None, Stdin = None\<rparr>" "plain_runtime [''echo''] []"]
    Start_echo [where penv = "[]" and args = "[''Hello George'']" and cenv = None and
          so = "Some 0" and se = None]
  by (simp add: Start_def Let_def CommandContext_def StdoutPipe_def StderrPipe_def
      cmd_Start_def spawn_def plain_runtime_def new_sys_def)

lemma dedup_rev_subset: "set (dedup_rev xs saw) \<subseteq> set xs"
  by (induction xs arbitrary: saw) (auto split: option.splits if_splits)

lemma dedupEnv_subset: "set (dedupEnv env) \<subseteq> set env"
  using dedup_rev_subset [of "rev env" "[]"] by (simp add: dedupEnv_def)

lemma Start_envp:
  "fst (Start rt s) = (Some cmd, None) \<Longrightarrow>
   envp (last (processes (snd (Start rt s)))) =
     dedupEnv (case Env (command s) of None \<Rightarrow> environ rt | Some env \<Rightarrow> env)"
  by (auto simp: Start_def Let_def CommandContext_def StdinPipe_def StdoutPipe_def
      StderrPipe_def cmd_Start_def spawn_def split: option.splits sum.splits if_splits)

text \<open>
  C4, as the code has it. \<^verbatim>\<open>Start\<close> hands the environment field to \<^verbatim>\<open>exec.Cmd\<close> as it
  is. The child of a successful launch whose field is empty but not \<^verbatim>\<open>nil\<close> gets no
  environment variable at all. When the field is \<^verbatim>\<open>nil\<close>, the child gets the
  environment of the calling process (as \<^verbatim>\<open>os/exec\<close> passes a list on). When the field
  is not \<^verbatim>\<open>nil\<close>, every variable of the child is an entry of the field.
\<close>

theorem child_environment:
  "fst (Start rt s) = (Some cmd, None) \<Longrightarrow>
   (Env (command s) = Some [] \<longrightarrow> envp (last (processes (snd (Start rt s)))) = []) \<and>
   (Env (command s) = None \<longrightarrow>
      envp (last (processes (snd (Start rt s)))) = dedupEnv (environ rt)) \<and>
   (\<forall>env. Env (command s) = Some env \<longrightarrow>
      envp (last (processes (snd (Start rt s)))) = dedupEnv env \<and>
      set (envp (last (processes (snd (Start rt s))))) \<subseteq> set env)"
  by (simp add: Start_envp dedupEnv_subset) (simp add: dedupEnv_def)

theorem child_environment_witness:
  "envp (last (processes (snd (Start (plain_runtime [''echo''] [''HOME=/root''])
       (new_sys \<lparr>Name = ''echo'', Args = [], Env = Some [], Stdout = None,
                 Stderr = None, Stdin = None\<rparr>))))) = [] \<and>
   envp (last (processes (snd (Start (plain_runtime [''echo''] [''HOME=/root''])
       (new_sys \<lparr>Name = ''echo'', Args = [], Env = Some [''A=1'', ''B=2'', ''A=3''],
                 Stdout = None, Stderr = None, Stdin = None\<rparr>))))) = [''B=2'', ''A=3'']"
  using child_environment
    [OF Start_echo [where penv = "[''HOME=/root'']" and args = "[]" and cenv = "Some []" and
          so = None and se = None]]
    child_environment
    [OF Start_echo [where penv = "[''HOME=/root'']" and args = "[]" and
          cenv = "Some [''A=1'', ''B=2'', ''A=3'']" and so = None and se = None]]
  by (simp add: plain_runtime_def new_sys_def dedupEnv_def env_key_def)

theorem nil_environment_counterexample:
  "Env \<lparr>Name = ''echo'', Args = [], Env = None, Stdout = None, Stderr = None,
        Stdin = None\<rparr> = None \<and>
   map envp (processes (snd (Start (plain_runtime [''echo''] [''HOME=/root''])
       (new_sys \<lparr>Name = ''echo'', Args = [], Env = None, Stdout = None,
                 Stderr = None, Stdin = None\<rparr>)))) = [[''HOME=/root'']]"
  by (simp add: Start_def Let_def CommandContext_def StdoutPipe_def StderrPipe_def
      cmd_Start_def spawn_def plain_runtime_def new_sys_def dedupEnv_def env_key_def)

text \<open>
  C7, at a launch that names an executable which does not exist and supplies a stdin
  source. \<^verbatim>\<open>Start\<close> returns the error and no process runs, but the stdin relay, spawned
  before the pipes for the output were acquired and before the process was started, is
  alive when \<^verbatim>\<open>Start\<close> returns; run against a source that nobody has closed, it stays
  blocked in the receive.
\<close>

theorem failed_launch_leaves_stdin_relay:
  "Start (plain_runtime [''echo''] [])
     (new_sys \<lparr>Name = ''no-such-program'', Args = [], Env = None, Stdout = None,
               Stderr = None, Stdin = Some 0\<rparr>) =
     ((None, Some (Err ''executable file not found'')),
      \<lparr>command = \<lparr>Name = ''no-such-program'', Args = [], Env = None, Stdout = None,
                  Stderr = None, Stdin = Some 0\<rparr>,
       goroutines = [StdinRelay 0], processes = [],
       pipes = [ChildStdin, ChildStdout, ChildStderr]\<rparr>) \<and>
   fst (run_task quiet_io (StdinRelay 0) (new_world 0 (new_pipe [] None))) = Blocked"
  by (simp add: Start_def Let_def CommandContext_def StdinPipe_def StdoutPipe_def
      StderrPipe_def cmd_Start_def spawn_def plain_runtime_def new_sys_def quiet_io_def
      stdin_relay_def new_world_def)

end
